theory Spec2Isabelle
  imports Main "HOL-Library.Word"
begin

unbundle bit_operations_syntax

section \<open>share/ipld/nmt.go: NMT nodes as IPLD nodes\<close>

text \<open>
  A shallow embedding of \<^verbatim>\<open>share/ipld/nmt.go\<close>. Go byte slices that are only read are
  byte lists; the buffer of a block, which \<^verbatim>\<open>Copy\<close> duplicates, lives in an explicit store
  of backing arrays. A Go function returning \<^verbatim>\<open>(T, error)\<close> returns \<open>error + T\<close>, one that
  can panic returns \<open>panic + T\<close>, and one that can do both returns \<open>failure + T\<close>.
\<close>

subsection \<open>Bytes and constants\<close>

type_synonym byte = "8 word"
type_synonym uint64 = "64 word"

text \<open>\<^verbatim>\<open>nmtCodec = 0x7700\<close> and \<^verbatim>\<open>sha256Namespace8Flagged = 0x7701\<close>.\<close>

definition nmtCodec :: uint64 where
  "nmtCodec = 0x7700"

definition sha256Namespace8Flagged :: uint64 where
  "sha256Namespace8Flagged = 0x7701"

text \<open>
  Modelled from the spec: \<^verbatim>\<open>appconsts.NamespaceSize\<close> is declared in celestia-app, outside
  the source file; the spec's concrete scenario (and the name of the multihash code,
  \<^verbatim>\<open>sha256Namespace8Flagged\<close>) fixes it to 8 bytes.
\<close>

definition NamespaceSize :: nat where
  "NamespaceSize = 8"

text \<open>\<^verbatim>\<open>sha256.Size\<close> of Go's standard library: a SHA-256 digest has 32 bytes.\<close>

definition sha256_Size :: nat where
  "sha256_Size = 32"

definition nmtHashSize :: nat where
  "nmtHashSize = 2 * NamespaceSize + sha256_Size"

definition cidPrefixSize :: nat where
  "cidPrefixSize = 4"

subsection \<open>Unsigned varints (go-varint)\<close>

text \<open>
  Library code the source calls through go-multihash and go-cid. \<^verbatim>\<open>PutUvarint\<close> writes
  the low seven bits of \<open>x\<close> with the continuation bit set while \<open>x \<ge> 0x80\<close>, then the last
  byte; the model returns the bytes written (the Go function returns their number).
\<close>

function PutUvarint :: "uint64 \<Rightarrow> byte list" where
  "PutUvarint x =
     (if 0x80 \<le> x then (ucast x OR 0x80) # PutUvarint (drop_bit 7 x) else [ucast x])"
  by pat_completeness auto
termination
proof (relation "measure unat")
  show "wf (measure (unat :: uint64 \<Rightarrow> nat))" by simp
next
  fix x :: uint64
  assume "0x80 \<le> x"
  then have "128 \<le> unat x" by (simp add: word_le_nat_alt)
  then have "unat x div 128 < unat x" by simp
  moreover have "unat (drop_bit 7 x) = drop_bit 7 (unat x)"
    by (rule unat_drop_bit_eq)
  moreover have "drop_bit 7 (unat x) = unat x div 128"
    by (simp add: drop_bit_eq_div)
  ultimately show "(drop_bit 7 x, x) \<in> measure unat"
    by (simp only: in_measure)
qed

declare PutUvarint.simps [simp del]

datatype varint_error = ErrOverflow | ErrNotMinimal | ErrUnderflow

text \<open>
  \<^verbatim>\<open>FromUvarint\<close>: the loop over the buffer, with the index \<open>i\<close>, the accumulator \<open>x\<close> and
  the shift \<open>s\<close> as arguments. It returns the value and the number of bytes read.
\<close>

fun FromUvarint_loop ::
  "nat \<Rightarrow> uint64 \<Rightarrow> nat \<Rightarrow> byte list \<Rightarrow> varint_error + (uint64 \<times> nat)" where
  "FromUvarint_loop i x s [] = Inl ErrUnderflow"
| "FromUvarint_loop i x s (b # bs) =
     (if (i = 8 \<and> 0x80 \<le> b) \<or> 9 \<le> i then Inl ErrOverflow
      else if b < 0x80 then
        (if b = 0 \<and> 0 < s then Inl ErrNotMinimal
         else Inr (x OR push_bit s (ucast b), i + 1))
      else FromUvarint_loop (i + 1) (x OR push_bit s (ucast (b AND 0x7f))) (s + 7) bs)"

definition FromUvarint :: "byte list \<Rightarrow> varint_error + (uint64 \<times> nat)" where
  "FromUvarint buf = FromUvarint_loop 0 0 0 buf"

text \<open>
  go-cid reads varints as \<^verbatim>\<open>v, n, _ := varint.FromUvarint(buf)\<close>, dropping the error: on
  an error both the value and the count are 0.
\<close>

definition uvarint :: "byte list \<Rightarrow> uint64 \<times> nat" where
  "uvarint buf = (case FromUvarint buf of Inl _ \<Rightarrow> (0, 0) | Inr r \<Rightarrow> r)"

subsection \<open>Multihashes and content identifiers (go-multihash, go-cid)\<close>

datatype Cid = Cid (cid_str: "byte list")

text \<open>
  Go errors. \<open>ErrNotFound c\<close> is the value \<^verbatim>\<open>ipld.ErrNotFound{Cid: c}\<close> and
  \<open>ErrNotFoundPtr c\<close> a pointer to one, of type \<^verbatim>\<open>*ipld.ErrNotFound\<close>; both are errors,
  of different dynamic types. \<open>ErrWrapped msg e\<close> is an error whose \<^verbatim>\<open>Unwrap\<close> returns
  \<open>e\<close>, and \<open>ErrOther\<close> any other error of the block getter.
\<close>

datatype error =
    ErrInvalidHashLength nat nat
  | ErrWrongSizedData
  | ErrInvalidPathInner
  | ErrInvalidPathLeaf
  | ErrWrongHash
  | ErrNotFound Cid
  | ErrNotFoundPtr Cid
  | ErrOther string
  | ErrWrapped string error

text \<open>
  \<^verbatim>\<open>mh.Encode(buf, code)\<close>: the varint of the code, the varint of the length, the digest.
  It has no failing path; the source still tests its error.
\<close>

definition mh_Encode :: "byte list \<Rightarrow> uint64 \<Rightarrow> error + byte list" where
  "mh_Encode buf code = Inr (PutUvarint code @ PutUvarint (of_nat (length buf)) @ buf)"

text \<open>\<^verbatim>\<open>cid.NewCidV1(codecType, mhash)\<close>: version 1, the codec, the multihash.\<close>

definition NewCidV1 :: "uint64 \<Rightarrow> byte list \<Rightarrow> Cid" where
  "NewCidV1 codecType mhash = Cid (PutUvarint 1 @ PutUvarint codecType @ mhash)"

text \<open>
  \<^verbatim>\<open>Cid.Version\<close>: a 34-byte string starting with 18, 32 is a version-0 identifier,
  everything else is version 1.
\<close>

definition Cid_Version :: "Cid \<Rightarrow> uint64" where
  "Cid_Version c =
     (let s = cid_str c in
      if length s = 34 \<and> s ! 0 = 18 \<and> s ! 1 = 32 then 0 else 1)"

text \<open>\<^verbatim>\<open>DagProtobuf = 0x70\<close> and \<^verbatim>\<open>mh.SHA2_256 = 0x12\<close>, the tags of a version-0 identifier.\<close>

definition DagProtobuf :: uint64 where
  "DagProtobuf = 0x70"

definition SHA2_256 :: uint64 where
  "SHA2_256 = 0x12"

text \<open>\<^verbatim>\<open>Cid.Type\<close>: the codec, the second varint of a version-1 identifier.\<close>

definition Cid_Type :: "Cid \<Rightarrow> uint64" where
  "Cid_Type c =
     (if Cid_Version c = 0 then DagProtobuf
      else let n = snd (uvarint (cid_str c)) in fst (uvarint (drop n (cid_str c))))"

text \<open>\<^verbatim>\<open>Cid.Hash\<close>: the multihash, what follows the version and the codec.\<close>

definition Cid_Hash :: "Cid \<Rightarrow> byte list" where
  "Cid_Hash c =
     (let bytes = cid_str c in
      if Cid_Version c = 0 then bytes
      else
        let n1 = snd (uvarint bytes);
            n2 = snd (uvarint (drop n1 bytes))
        in drop (n1 + n2) bytes)"

text \<open>
  The multihash function code of an identifier, as \<^verbatim>\<open>Cid.Prefix().MhType\<close> reads it: the
  third varint of a version-1 identifier.
\<close>

definition Cid_MhType :: "Cid \<Rightarrow> uint64" where
  "Cid_MhType c =
     (if Cid_Version c = 0 then SHA2_256
      else
        let n1 = snd (uvarint (cid_str c));
            n2 = snd (uvarint (drop n1 (cid_str c)))
        in fst (uvarint (drop (n1 + n2) (cid_str c))))"

subsection \<open>The codec between namespaced hashes and identifiers\<close>

datatype panic =
    IndexOutOfRange
  | SliceBoundsOutOfRange
  | TreeNotImplemented
  | WrongHashForBlock Cid
  | MalformedHash error

datatype failure = Err error | Panic panic

text \<open>\<^verbatim>\<open>CidFromNamespacedSha256\<close>: the length check, the multihash, the identifier.\<close>

definition CidFromNamespacedSha256 :: "byte list \<Rightarrow> error + Cid" where
  "CidFromNamespacedSha256 namespacedHash =
     (let got = length namespacedHash; want = nmtHashSize in
      if got \<noteq> want then Inl (ErrInvalidHashLength got want)
      else
        (case mh_Encode namespacedHash sha256Namespace8Flagged of
           Inl err \<Rightarrow> Inl err
         | Inr buf \<Rightarrow> Inr (NewCidV1 nmtCodec buf)))"

text \<open>\<^verbatim>\<open>MustCidFromNamespacedSha256\<close>: the same, with the error turned into a panic.\<close>

definition MustCidFromNamespacedSha256 :: "byte list \<Rightarrow> panic + Cid" where
  "MustCidFromNamespacedSha256 hash =
     (case CidFromNamespacedSha256 hash of
        Inl err \<Rightarrow> Inl (MalformedHash err)
      | Inr cidFromHash \<Rightarrow> Inr cidFromHash)"

text \<open>
  \<^verbatim>\<open>NamespacedSha256FromCID\<close>: \<^verbatim>\<open>cid.Hash()[cidPrefixSize:]\<close>. The slice expression panics
  when the multihash is shorter than the prefix.
\<close>

definition NamespacedSha256FromCID :: "Cid \<Rightarrow> panic + byte list" where
  "NamespacedSha256FromCID c =
     (let h = Cid_Hash c in
      if cidPrefixSize \<le> length h then Inr (drop cidPrefixSize h)
      else Inl SliceBoundsOutOfRange)"

subsection \<open>Byte slices and their backing arrays\<close>

text \<open>
  The store holds the backing arrays, addressed by their position. A slice is Go's slice
  header: the array, the offset of its first element, its length and its capacity.
  \<open>slice_ok\<close> is the invariant every Go slice satisfies, and \<open>slice_bytes\<close> reads the
  elements of a slice.
\<close>

type_synonym heap = "byte list list"

record slice =
  s_array :: nat
  s_off :: nat
  s_len :: nat
  s_cap :: nat

definition slice_ok :: "heap \<Rightarrow> slice \<Rightarrow> bool" where
  "slice_ok st s =
     (s_array s < length st \<and> s_len s \<le> s_cap s \<and>
      s_off s + s_cap s \<le> length (st ! s_array s))"

definition slice_bytes :: "heap \<Rightarrow> slice \<Rightarrow> byte list" where
  "slice_bytes st s = take (s_len s) (drop (s_off s) (st ! s_array s))"

text \<open>\<^verbatim>\<open>make([]byte, n)\<close>: a new array of \<open>n\<close> zero bytes, at an address not yet in use.\<close>

definition make_bytes :: "heap \<Rightarrow> nat \<Rightarrow> heap \<times> slice" where
  "make_bytes st n =
     (st @ [replicate n 0], \<lparr>s_array = length st, s_off = 0, s_len = n, s_cap = n\<rparr>)"

text \<open>\<^verbatim>\<open>copy(dst, src)\<close>: the first \<open>min (len dst) (len src)\<close> bytes, and their number.\<close>

definition copy_bytes :: "heap \<Rightarrow> slice \<Rightarrow> slice \<Rightarrow> heap \<times> nat" where
  "copy_bytes st dst src =
     (let n = min (s_len dst) (s_len src);
          bs = take n (slice_bytes st src);
          arr = st ! s_array dst
      in (st[s_array dst := take (s_off dst) arr @ bs @ drop (s_off dst + n) arr], n))"

text \<open>\<^verbatim>\<open>s[i] = v\<close>: a write through a slice, which panics out of range.\<close>

definition slice_set :: "heap \<Rightarrow> slice \<Rightarrow> nat \<Rightarrow> byte \<Rightarrow> panic + heap" where
  "slice_set st s i v =
     (if i < s_len s
      then Inr (st[s_array s := (st ! s_array s)[s_off s + i := v]])
      else Inl IndexOutOfRange)"

text \<open>
  \<^verbatim>\<open>s[:k]\<close> and \<^verbatim>\<open>s[k:]\<close>. Go allows \<open>k\<close> up to the capacity in the first and up to the
  length in the second, and panics beyond.
\<close>

definition slice_to :: "slice \<Rightarrow> nat \<Rightarrow> panic + slice" where
  "slice_to s k = (if k \<le> s_cap s then Inr (s\<lparr>s_len := k\<rparr>) else Inl SliceBoundsOutOfRange)"

definition slice_from :: "slice \<Rightarrow> nat \<Rightarrow> panic + slice" where
  "slice_from s k =
     (if k \<le> s_len s
      then Inr (s\<lparr>s_off := s_off s + k, s_len := s_len s - k, s_cap := s_cap s - k\<rparr>)
      else Inl SliceBoundsOutOfRange)"

text \<open>\<^verbatim>\<open>xs[i]\<close> with a Go \<^verbatim>\<open>int\<close> index.\<close>

definition index :: "'a list \<Rightarrow> int \<Rightarrow> panic + 'a" where
  "index xs i = (if 0 \<le> i \<and> i < int (length xs) then Inr (xs ! nat i) else Inl IndexOutOfRange)"

subsection \<open>Blocks (go-block-format)\<close>

text \<open>
  A basic block: an identifier and the slice of its data. \<^verbatim>\<open>RawData()\<close> and \<^verbatim>\<open>Cid()\<close>
  return the two fields.
\<close>

record Block =
  block_cid :: Cid
  block_data :: slice

definition RawData :: "Block \<Rightarrow> slice" where
  "RawData b = block_data b"

definition Block_Cid :: "Block \<Rightarrow> Cid" where
  "Block_Cid b = block_cid b"

text \<open>
  \<^verbatim>\<open>blocks.NewBlockWithCid(data, c)\<close> keeps the slice it is given. With the library's debug
  flag off (its default, \<open>None\<close> here) it checks nothing; with the flag on it recomputes
  the identifier from the data, \<^verbatim>\<open>c.Prefix().Sum(data)\<close> (the parameter \<open>chk\<close>), and
  refuses an identifier that differs.
\<close>

type_synonym debug = "(Cid \<Rightarrow> byte list \<Rightarrow> error + Cid) option"

definition NewBlockWithCid :: "debug \<Rightarrow> heap \<Rightarrow> slice \<Rightarrow> Cid \<Rightarrow> error + Block" where
  "NewBlockWithCid dbg st data c =
     (case dbg of
        None \<Rightarrow> Inr \<lparr>block_cid = c, block_data = data\<rparr>
      | Some chk \<Rightarrow>
          (case chk c (slice_bytes st data) of
             Inl err \<Rightarrow> Inl err
           | Inr chkc \<Rightarrow>
               if chkc \<noteq> c then Inl ErrWrongHash
               else Inr \<lparr>block_cid = c, block_data = data\<rparr>))"

subsection \<open>Inner nodes: \<^verbatim>\<open>nmtNode\<close>\<close>

text \<open>
  \<^verbatim>\<open>nmtNode\<close> wraps a block and \<^verbatim>\<open>nmtLeafNode\<close> wraps an \<^verbatim>\<open>nmtNode\<close>; a value of the
  interface \<^verbatim>\<open>ipld.Node\<close> is one or the other.
\<close>

datatype Node = NmtNode Block | NmtLeafNode Block

text \<open>\<^verbatim>\<open>ipld.Link\<close>; the source fills in the identifier only.\<close>

record Link =
  link_Name :: string
  link_Size :: uint64
  link_Cid :: Cid

definition Link_of :: "Cid \<Rightarrow> Link" where
  "Link_of c = \<lparr>link_Name = [], link_Size = 0, link_Cid = c\<rparr>"

definition newNMTNode :: "debug \<Rightarrow> heap \<Rightarrow> Cid \<Rightarrow> slice \<Rightarrow> panic + Block" where
  "newNMTNode dbg st id' data =
     (case NewBlockWithCid dbg st data id' of
        Inl err \<Rightarrow> Inl (WrongHashForBlock id')
      | Inr b \<Rightarrow> Inr b)"

definition nmtNode_left :: "Block \<Rightarrow> panic + slice" where
  "nmtNode_left n = slice_to (RawData n) nmtHashSize"

definition nmtNode_right :: "Block \<Rightarrow> panic + slice" where
  "nmtNode_right n = slice_from (RawData n) nmtHashSize"

text \<open>
  \<^verbatim>\<open>nmtNode.Resolve\<close>. The switch reads \<^verbatim>\<open>path[0]\<close> first, which panics on an empty path.
\<close>

definition nmtNode_Resolve ::
  "heap \<Rightarrow> Block \<Rightarrow> string list \<Rightarrow> failure + (Link \<times> string list)" where
  "nmtNode_Resolve st n path =
     (case path of
        [] \<Rightarrow> Inl (Panic IndexOutOfRange)
      | p # rest \<Rightarrow>
          if p = ''0'' then
            (case nmtNode_left n of
               Inl pn \<Rightarrow> Inl (Panic pn)
             | Inr l \<Rightarrow>
                 (case CidFromNamespacedSha256 (slice_bytes st l) of
                    Inl err \<Rightarrow> Inl (Err err)
                  | Inr left \<Rightarrow> Inr (Link_of left, rest)))
          else if p = ''1'' then
            (case nmtNode_right n of
               Inl pn \<Rightarrow> Inl (Panic pn)
             | Inr r \<Rightarrow>
                 (case CidFromNamespacedSha256 (slice_bytes st r) of
                    Inl err \<Rightarrow> Inl (Err err)
                  | Inr right \<Rightarrow> Inr (Link_of right, rest)))
          else Inl (Err ErrInvalidPathInner))"

definition nmtNode_Tree :: "string \<Rightarrow> int \<Rightarrow> panic + string list" where
  "nmtNode_Tree path depth =
     (if path \<noteq> [] \<or> depth \<noteq> - 1 then Inl TreeNotImplemented
      else Inr [''0'', ''1''])"

text \<open>
  \<^verbatim>\<open>nmtNode.Copy\<close>: a new array of the length of the data, the data copied into it, and a
  node on the new slice with the identifier of the old one. The result is an \<^verbatim>\<open>nmtNode\<close>.
\<close>

definition nmtNode_Copy :: "debug \<Rightarrow> heap \<Rightarrow> Block \<Rightarrow> panic + (Node \<times> heap)" where
  "nmtNode_Copy dbg st n =
     (let (st1, d) = make_bytes st (s_len (RawData n));
          (st2, _) = copy_bytes st1 d (RawData n)
      in case newNMTNode dbg st2 (Block_Cid n) d of
           Inl pn \<Rightarrow> Inl pn
         | Inr b \<Rightarrow> Inr (NmtNode b, st2))"

definition nmtNode_Links :: "heap \<Rightarrow> Block \<Rightarrow> panic + Link list" where
  "nmtNode_Links st n =
     (case nmtNode_left n of
        Inl pn \<Rightarrow> Inl pn
      | Inr l \<Rightarrow>
          (case MustCidFromNamespacedSha256 (slice_bytes st l) of
             Inl pn \<Rightarrow> Inl pn
           | Inr leftCid \<Rightarrow>
               (case nmtNode_right n of
                  Inl pn \<Rightarrow> Inl pn
                | Inr r \<Rightarrow>
                    (case MustCidFromNamespacedSha256 (slice_bytes st r) of
                       Inl pn \<Rightarrow> Inl pn
                     | Inr rightCid \<Rightarrow> Inr [Link_of leftCid, Link_of rightCid]))))"

subsection \<open>Leaf nodes: \<^verbatim>\<open>nmtLeafNode\<close>\<close>

definition nmtLeafNode_Resolve :: "string list \<Rightarrow> failure + (Link \<times> string list)" where
  "nmtLeafNode_Resolve path = Inl (Err ErrInvalidPathLeaf)"

definition nmtLeafNode_Tree :: "string \<Rightarrow> int \<Rightarrow> string list" where
  "nmtLeafNode_Tree path depth = []"

definition nmtLeafNode_Links :: "Link list" where
  "nmtLeafNode_Links = []"

subsection \<open>The methods of \<^verbatim>\<open>ipld.Node\<close>, by variant\<close>

text \<open>
  A leaf node has \<^verbatim>\<open>Resolve\<close>, \<^verbatim>\<open>Tree\<close> and \<^verbatim>\<open>Links\<close> of its own; \<^verbatim>\<open>Copy\<close>, \<^verbatim>\<open>RawData\<close> and
  \<^verbatim>\<open>Cid\<close> are those of the \<^verbatim>\<open>nmtNode\<close> it embeds.
\<close>

fun Node_block :: "Node \<Rightarrow> Block" where
  "Node_block (NmtNode b) = b"
| "Node_block (NmtLeafNode b) = b"

fun Node_Resolve :: "heap \<Rightarrow> Node \<Rightarrow> string list \<Rightarrow> failure + (Link \<times> string list)" where
  "Node_Resolve st (NmtNode n) path = nmtNode_Resolve st n path"
| "Node_Resolve st (NmtLeafNode l) path = nmtLeafNode_Resolve path"

fun Node_Tree :: "Node \<Rightarrow> string \<Rightarrow> int \<Rightarrow> panic + string list" where
  "Node_Tree (NmtNode n) path depth = nmtNode_Tree path depth"
| "Node_Tree (NmtLeafNode l) path depth = Inr (nmtLeafNode_Tree path depth)"

fun Node_Links :: "heap \<Rightarrow> Node \<Rightarrow> panic + Link list" where
  "Node_Links st (NmtNode n) = nmtNode_Links st n"
| "Node_Links st (NmtLeafNode l) = Inr nmtLeafNode_Links"

fun Node_Copy :: "debug \<Rightarrow> heap \<Rightarrow> Node \<Rightarrow> panic + (Node \<times> heap)" where
  "Node_Copy dbg st (NmtNode n) = nmtNode_Copy dbg st n"
| "Node_Copy dbg st (NmtLeafNode l) = nmtNode_Copy dbg st l"

definition Node_RawData :: "Node \<Rightarrow> slice" where
  "Node_RawData nd = RawData (Node_block nd)"

definition Node_Cid :: "Node \<Rightarrow> Cid" where
  "Node_Cid nd = Block_Cid (Node_block nd)"

subsection \<open>Decoding and fetching blocks\<close>

text \<open>
  \<^verbatim>\<open>decodeBlock\<close>. The share size (\<^verbatim>\<open>consts.ShareSize\<close>) is declared outside the source
  file and is a parameter here.
\<close>

definition decodeBlock :: "nat \<Rightarrow> Block \<Rightarrow> error + Node" where
  "decodeBlock ShareSize block =
     (let innerNodeSize = nmtHashSize * 2; leafNodeSize = NamespaceSize + ShareSize in
      if s_len (RawData block) = innerNodeSize then Inr (NmtNode block)
      else if s_len (RawData block) = leafNodeSize then Inr (NmtLeafNode block)
      else Inl ErrWrongSizedData)"

text \<open>
  \<^verbatim>\<open>errors.As(err, &errNotFound)\<close> with \<^verbatim>\<open>var errNotFound *ipld.ErrNotFound\<close>: the first
  error of the chain of wrapped errors whose dynamic type is \<^verbatim>\<open>*ipld.ErrNotFound\<close>, if
  there is one. The value \<^verbatim>\<open>ipld.ErrNotFound{...}\<close> is of another type (and has no \<^verbatim>\<open>As\<close>
  method), so it does not match.
\<close>

fun errors_As_ErrNotFound :: "error \<Rightarrow> error option" where
  "errors_As_ErrNotFound (ErrNotFoundPtr c) = Some (ErrNotFoundPtr c)"
| "errors_As_ErrNotFound (ErrWrapped msg e) = errors_As_ErrNotFound e"
| "errors_As_ErrNotFound e = None"

text \<open>
  \<^verbatim>\<open>ipld.IsNotFound(err)\<close> of go-ipld-format, the test a caller of \<^verbatim>\<open>GetNode\<close> has for the
  not-found condition: \<^verbatim>\<open>errors.Is(err, ErrNotFound{})\<close>, which holds when an error of the
  chain is an \<^verbatim>\<open>ErrNotFound\<close>, as a value or behind a pointer (the method \<^verbatim>\<open>Is\<close> has a value
  receiver, so both have it).
\<close>

fun IsNotFound :: "error \<Rightarrow> bool" where
  "IsNotFound (ErrNotFound c) = True"
| "IsNotFound (ErrNotFoundPtr c) = True"
| "IsNotFound (ErrWrapped msg e) = IsNotFound e"
| "IsNotFound e = False"

text \<open>
  \<^verbatim>\<open>GetNode\<close>. The block getter, with its context, is a function from identifiers to
  blocks or errors.
\<close>

definition GetNode :: "nat \<Rightarrow> (Cid \<Rightarrow> error + Block) \<Rightarrow> Cid \<Rightarrow> error + Node" where
  "GetNode ShareSize bGetter root =
     (case bGetter root of
        Inl err \<Rightarrow>
          (case errors_As_ErrNotFound err of
             Some errNotFound \<Rightarrow> Inl errNotFound
           | None \<Rightarrow> Inl err)
      | Inr block \<Rightarrow> decodeBlock ShareSize block)"

subsection \<open>Sampling coordinates\<close>

record DataAvailabilityHeader =
  RowsRoots :: "byte list list"
  ColumnRoots :: "byte list list"

text \<open>
  \<^verbatim>\<open>Translate\<close>. The value \<^verbatim>\<open>rand.Intn(2)\<close> returns is the argument \<open>coin\<close>; the header is
  the one \<open>dah\<close> points to.
\<close>

definition Translate ::
  "int \<Rightarrow> DataAvailabilityHeader \<Rightarrow> int \<Rightarrow> int \<Rightarrow> panic + (Cid \<times> int)" where
  "Translate coin dah row col =
     (if coin = 0 then
        (case index (ColumnRoots dah) col of
           Inl pn \<Rightarrow> Inl pn
         | Inr h \<Rightarrow>
             (case MustCidFromNamespacedSha256 h of
                Inl pn \<Rightarrow> Inl pn
              | Inr c \<Rightarrow> Inr (c, row)))
      else
        (case index (RowsRoots dah) row of
           Inl pn \<Rightarrow> Inl pn
         | Inr h \<Rightarrow>
             (case MustCidFromNamespacedSha256 h of
                Inl pn \<Rightarrow> Inl pn
              | Inr c \<Rightarrow> Inr (c, col))))"

section \<open>Properties\<close>

subsection \<open>The identifiers of namespaced hashes\<close>

lemma nmtHashSize_48: "nmtHashSize = 48"
  by (simp add: nmtHashSize_def NamespaceSize_def sha256_Size_def)

lemma PutUvarint_1: "PutUvarint 1 = [1]"
  by (simp add: PutUvarint.simps word_le_nat_alt)

lemma PutUvarint_nmtCodec: "PutUvarint nmtCodec = [0x80, 0xEE, 0x01]"
  by (simp add: nmtCodec_def PutUvarint.simps word_le_nat_alt)

lemma PutUvarint_sha256Namespace8Flagged:
  "PutUvarint sha256Namespace8Flagged = [0x81, 0xEE, 0x01]"
  by (simp add: sha256Namespace8Flagged_def PutUvarint.simps word_le_nat_alt)

lemma PutUvarint_48: "PutUvarint 48 = [0x30]"
  by (simp add: PutUvarint.simps)

lemma uvarint_1: "uvarint (1 # bs) = (1, 1)"
  by (simp add: uvarint_def FromUvarint_def)

lemma uvarint_nmtCodec: "uvarint (0x80 # 0xEE # 0x01 # bs) = (nmtCodec, 3)"
  by (simp add: uvarint_def FromUvarint_def nmtCodec_def)

lemma uvarint_sha256Namespace8Flagged:
  "uvarint (0x81 # 0xEE # 0x01 # bs) = (sha256Namespace8Flagged, 3)"
  by (simp add: uvarint_def FromUvarint_def sha256Namespace8Flagged_def)

text \<open>
  The identifier of a hash of the right length, byte by byte: version 1, the codec in
  three bytes, the multihash code in three bytes, the length 48, the hash.
\<close>

lemma CidFromNamespacedSha256_bytes:
  assumes "length h = nmtHashSize"
  shows "CidFromNamespacedSha256 h =
    Inr (Cid (0x01 # 0x80 # 0xEE # 0x01 # 0x81 # 0xEE # 0x01 # 0x30 # h))"
  using assms
  by (simp add: CidFromNamespacedSha256_def mh_Encode_def NewCidV1_def nmtHashSize_48
      PutUvarint_1 PutUvarint_nmtCodec PutUvarint_sha256Namespace8Flagged PutUvarint_48)

lemma Cid_Version_nmt:
  assumes "length h = nmtHashSize"
  shows "Cid_Version (Cid (0x01 # 0x80 # 0xEE # 0x01 # 0x81 # 0xEE # 0x01 # 0x30 # h)) = 1"
  using assms by (simp add: Cid_Version_def nmtHashSize_48)

lemma Cid_Hash_nmt:
  assumes "length h = nmtHashSize"
  shows "Cid_Hash (Cid (0x01 # 0x80 # 0xEE # 0x01 # 0x81 # 0xEE # 0x01 # 0x30 # h)) =
    0x81 # 0xEE # 0x01 # 0x30 # h"
  using Cid_Version_nmt [OF assms]
  by (simp add: Cid_Hash_def uvarint_1 uvarint_nmtCodec)

text \<open>
  C1. For every byte sequence \<open>h\<close> of length \<open>nmtHashSize\<close> (48 bytes), encoding succeeds
  and decoding the identifier returns \<open>h\<close>: the multihash of the identifier is a prefix of
  \<open>cidPrefixSize\<close> (4) bytes followed by \<open>h\<close>, and \<^verbatim>\<open>NamespacedSha256FromCID\<close> returns what
  follows the prefix.
\<close>

theorem NamespacedSha256_roundtrip:
  assumes "length h = nmtHashSize"
  shows "\<exists>c. CidFromNamespacedSha256 h = Inr c \<and>
    length (Cid_Hash c) = cidPrefixSize + length h \<and>
    drop cidPrefixSize (Cid_Hash c) = h \<and>
    NamespacedSha256FromCID c = Inr h"
  using assms
  by (simp add: CidFromNamespacedSha256_bytes Cid_Hash_nmt NamespacedSha256FromCID_def
      cidPrefixSize_def)

text \<open>The spec's scenario: 48 zero bytes come back from their identifier.\<close>

theorem NamespacedSha256_roundtrip_witness:
  "length (replicate 48 (0 :: byte)) = nmtHashSize \<and>
   (\<exists>c. CidFromNamespacedSha256 (replicate 48 0) = Inr c \<and>
      NamespacedSha256FromCID c = Inr (replicate 48 0))"
  using NamespacedSha256_roundtrip [of "replicate 48 0"]
  by (auto simp add: nmtHashSize_48)

text \<open>
  C4. \<^verbatim>\<open>CidFromNamespacedSha256\<close> fails on every byte sequence whose length is not
  \<open>nmtHashSize\<close>, with the error that carries the length it got and the length it wants;
  on every sequence of that length it succeeds, and the identifier has version 1, the
  codec \<open>nmtCodec\<close> and the multihash code \<open>sha256Namespace8Flagged\<close>.
\<close>

theorem CidFromNamespacedSha256_length:
  "(length h \<noteq> nmtHashSize \<longrightarrow>
      CidFromNamespacedSha256 h = Inl (ErrInvalidHashLength (length h) nmtHashSize)) \<and>
   (length h = nmtHashSize \<longrightarrow>
      (\<exists>c. CidFromNamespacedSha256 h = Inr c \<and> Cid_Version c = 1 \<and>
         Cid_Type c = nmtCodec \<and> Cid_MhType c = sha256Namespace8Flagged))"
proof (intro conjI impI)
  assume "length h \<noteq> nmtHashSize"
  then show "CidFromNamespacedSha256 h = Inl (ErrInvalidHashLength (length h) nmtHashSize)"
    by (simp add: CidFromNamespacedSha256_def)
next
  assume len: "length h = nmtHashSize"
  let ?c = "Cid (0x01 # 0x80 # 0xEE # 0x01 # 0x81 # 0xEE # 0x01 # 0x30 # h)"
  have v: "Cid_Version ?c = 1"
    by (rule Cid_Version_nmt [OF len])
  have t: "Cid_Type ?c = nmtCodec"
    using v by (simp add: Cid_Type_def uvarint_1 uvarint_nmtCodec)
  have m: "Cid_MhType ?c = sha256Namespace8Flagged"
    using v
    by (simp add: Cid_MhType_def uvarint_1 uvarint_nmtCodec uvarint_sha256Namespace8Flagged)
  show "\<exists>c. CidFromNamespacedSha256 h = Inr c \<and> Cid_Version c = 1 \<and>
         Cid_Type c = nmtCodec \<and> Cid_MhType c = sha256Namespace8Flagged"
    using v t m by (simp add: CidFromNamespacedSha256_bytes [OF len])
qed

text \<open>The empty sequence is refused and 48 zero bytes are accepted.\<close>

theorem CidFromNamespacedSha256_length_witness:
  "CidFromNamespacedSha256 [] = Inl (ErrInvalidHashLength 0 48) \<and>
   (\<exists>c. CidFromNamespacedSha256 (replicate 48 0) = Inr c \<and> Cid_Version c = 1 \<and>
      Cid_Type c = nmtCodec \<and> Cid_MhType c = sha256Namespace8Flagged)"
  using CidFromNamespacedSha256_length [of "[]"]
    CidFromNamespacedSha256_length [of "replicate 48 0"]
  by (simp add: nmtHashSize_48)

subsection \<open>Classifying blocks by their size\<close>

text \<open>
  C2. Provided the two sizes differ, \<^verbatim>\<open>decodeBlock\<close> succeeds exactly on the blocks whose data
  has one of the two sizes: \<open>2 * nmtHashSize\<close> bytes give an inner node,
  \<open>NamespaceSize + ShareSize\<close> bytes give a leaf node, and every other length gives the
  error for wrong sized data.
\<close>

theorem decodeBlock_sizes:
  assumes "NamespaceSize + ShareSize \<noteq> 2 * nmtHashSize"
  shows
    "(s_len (RawData b) = 2 * nmtHashSize \<longrightarrow> decodeBlock ShareSize b = Inr (NmtNode b)) \<and>
     (s_len (RawData b) = NamespaceSize + ShareSize \<longrightarrow>
        decodeBlock ShareSize b = Inr (NmtLeafNode b)) \<and>
     (s_len (RawData b) \<noteq> 2 * nmtHashSize \<and> s_len (RawData b) \<noteq> NamespaceSize + ShareSize \<longrightarrow>
        decodeBlock ShareSize b = Inl ErrWrongSizedData) \<and>
     ((\<exists>nd. decodeBlock ShareSize b = Inr nd) \<longleftrightarrow>
        s_len (RawData b) = 2 * nmtHashSize \<or> s_len (RawData b) = NamespaceSize + ShareSize)"
  using assms by (auto simp add: decodeBlock_def Let_def)

text \<open>With shares of 512 bytes: 96 bytes are an inner node, 520 a leaf, 50 are refused.\<close>

theorem decodeBlock_sizes_witness:
  "NamespaceSize + 512 \<noteq> 2 * nmtHashSize \<and>
   decodeBlock 512 \<lparr>block_cid = Cid [], block_data = \<lparr>s_array = 0, s_off = 0, s_len = 96, s_cap = 96\<rparr>\<rparr> =
     Inr (NmtNode \<lparr>block_cid = Cid [], block_data = \<lparr>s_array = 0, s_off = 0, s_len = 96, s_cap = 96\<rparr>\<rparr>) \<and>
   decodeBlock 512 \<lparr>block_cid = Cid [], block_data = \<lparr>s_array = 0, s_off = 0, s_len = 520, s_cap = 520\<rparr>\<rparr> =
     Inr (NmtLeafNode \<lparr>block_cid = Cid [], block_data = \<lparr>s_array = 0, s_off = 0, s_len = 520, s_cap = 520\<rparr>\<rparr>) \<and>
   decodeBlock 512 \<lparr>block_cid = Cid [], block_data = \<lparr>s_array = 0, s_off = 0, s_len = 50, s_cap = 50\<rparr>\<rparr> =
     Inl ErrWrongSizedData"
  using
    decodeBlock_sizes [of 512 "\<lparr>block_cid = Cid [], block_data = \<lparr>s_array = 0, s_off = 0, s_len = 96, s_cap = 96\<rparr>\<rparr>"]
    decodeBlock_sizes [of 512 "\<lparr>block_cid = Cid [], block_data = \<lparr>s_array = 0, s_off = 0, s_len = 520, s_cap = 520\<rparr>\<rparr>"]
    decodeBlock_sizes [of 512 "\<lparr>block_cid = Cid [], block_data = \<lparr>s_array = 0, s_off = 0, s_len = 50, s_cap = 50\<rparr>\<rparr>"]
  by (simp add: nmtHashSize_48 NamespaceSize_def RawData_def)

subsection \<open>Resolving paths\<close>

lemma slice_bytes_length:
  assumes "slice_ok st s"
  shows "length (slice_bytes st s) = s_len s"
  using assms by (auto simp add: slice_ok_def slice_bytes_def)

lemma nmtNode_left_bytes:
  assumes ok: "slice_ok st (RawData n)"
    and bytes: "slice_bytes st (RawData n) = l @ r"
    and l: "length l = nmtHashSize"
  shows "\<exists>s. nmtNode_left n = Inr s \<and> slice_bytes st s = l"
proof -
  have "s_len (RawData n) = length (l @ r)"
    using slice_bytes_length [OF ok] bytes by simp
  then have len: "nmtHashSize \<le> s_len (RawData n)"
    using l by simp
  then have cap: "nmtHashSize \<le> s_cap (RawData n)"
    using ok by (simp add: slice_ok_def)
  have "take nmtHashSize (drop (s_off (RawData n)) (st ! s_array (RawData n))) =
      take nmtHashSize (slice_bytes st (RawData n))"
    using len by (simp add: slice_bytes_def min_absorb1)
  also have "\<dots> = l"
    using bytes l by simp
  finally show ?thesis
    using cap by (simp add: nmtNode_left_def slice_to_def slice_bytes_def)
qed

lemma nmtNode_right_bytes:
  assumes ok: "slice_ok st (RawData n)"
    and bytes: "slice_bytes st (RawData n) = l @ r"
    and l: "length l = nmtHashSize"
  shows "\<exists>s. nmtNode_right n = Inr s \<and> slice_bytes st s = r"
proof -
  have "s_len (RawData n) = length (l @ r)"
    using slice_bytes_length [OF ok] bytes by simp
  then have len: "nmtHashSize \<le> s_len (RawData n)"
    using l by simp
  have "take (s_len (RawData n) - nmtHashSize)
        (drop (s_off (RawData n) + nmtHashSize) (st ! s_array (RawData n))) =
      drop nmtHashSize (slice_bytes st (RawData n))"
    by (simp add: slice_bytes_def drop_take add.commute)
  also have "\<dots> = r"
    using bytes l by simp
  finally show ?thesis
    using len by (simp add: nmtNode_right_def slice_from_def slice_bytes_def)
qed

text \<open>
  C3. For an inner node whose data is \<open>left @ right\<close>, both of \<open>nmtHashSize\<close> bytes:
  resolving a path that starts with \<open>''0''\<close> returns a link with the identifier of \<open>left\<close>
  and the rest of the path, one that starts with \<open>''1''\<close> returns a link with the
  identifier of \<open>right\<close> and the rest, and any other first segment, \<open>''2''\<close> for one, fails
  with the inner node's error for an invalid path.
\<close>

theorem nmtNode_Resolve_children:
  assumes ok: "slice_ok st (RawData n)"
    and bytes: "slice_bytes st (RawData n) = left @ right"
    and l: "length left = nmtHashSize"
    and r: "length right = nmtHashSize"
  shows
    "(\<exists>c. CidFromNamespacedSha256 left = Inr c \<and>
        nmtNode_Resolve st n (''0'' # rest) = Inr (Link_of c, rest) \<and> link_Cid (Link_of c) = c) \<and>
     (\<exists>c. CidFromNamespacedSha256 right = Inr c \<and>
        nmtNode_Resolve st n (''1'' # rest) = Inr (Link_of c, rest) \<and> link_Cid (Link_of c) = c) \<and>
     (p \<noteq> ''0'' \<and> p \<noteq> ''1'' \<longrightarrow>
        nmtNode_Resolve st n (p # rest) = Inl (Err ErrInvalidPathInner)) \<and>
     nmtNode_Resolve st n [''2''] = Inl (Err ErrInvalidPathInner)"
proof (intro conjI impI)
  obtain s where s: "nmtNode_left n = Inr s" "slice_bytes st s = left"
    using nmtNode_left_bytes [OF ok bytes l] by blast
  show "\<exists>c. CidFromNamespacedSha256 left = Inr c \<and>
        nmtNode_Resolve st n (''0'' # rest) = Inr (Link_of c, rest) \<and> link_Cid (Link_of c) = c"
    using s by (simp add: nmtNode_Resolve_def CidFromNamespacedSha256_bytes [OF l] Link_of_def)
next
  obtain s where s: "nmtNode_right n = Inr s" "slice_bytes st s = right"
    using nmtNode_right_bytes [OF ok bytes l] by blast
  show "\<exists>c. CidFromNamespacedSha256 right = Inr c \<and>
        nmtNode_Resolve st n (''1'' # rest) = Inr (Link_of c, rest) \<and> link_Cid (Link_of c) = c"
    using s by (simp add: nmtNode_Resolve_def CidFromNamespacedSha256_bytes [OF r] Link_of_def)
next
  assume "p \<noteq> ''0'' \<and> p \<noteq> ''1''"
  then show "nmtNode_Resolve st n (p # rest) = Inl (Err ErrInvalidPathInner)"
    by (simp add: nmtNode_Resolve_def)
next
  show "nmtNode_Resolve st n [''2''] = Inl (Err ErrInvalidPathInner)"
    by (simp add: nmtNode_Resolve_def)
qed

text \<open>A node of 48 ones followed by 48 twos, and the paths 0/1, 1/1 and 2/1.\<close>

theorem nmtNode_Resolve_children_witness:
  "(\<exists>c. CidFromNamespacedSha256 (replicate 48 1) = Inr c \<and>
      nmtNode_Resolve [replicate 48 1 @ replicate 48 2]
        \<lparr>block_cid = Cid [], block_data = \<lparr>s_array = 0, s_off = 0, s_len = 96, s_cap = 96\<rparr>\<rparr>
        [''0'', ''1''] = Inr (Link_of c, [''1''])) \<and>
   (\<exists>c. CidFromNamespacedSha256 (replicate 48 2) = Inr c \<and>
      nmtNode_Resolve [replicate 48 1 @ replicate 48 2]
        \<lparr>block_cid = Cid [], block_data = \<lparr>s_array = 0, s_off = 0, s_len = 96, s_cap = 96\<rparr>\<rparr>
        [''1'', ''1''] = Inr (Link_of c, [''1''])) \<and>
   nmtNode_Resolve [replicate 48 1 @ replicate 48 2]
     \<lparr>block_cid = Cid [], block_data = \<lparr>s_array = 0, s_off = 0, s_len = 96, s_cap = 96\<rparr>\<rparr>
     [''2'', ''1''] = Inl (Err ErrInvalidPathInner)"
  using nmtNode_Resolve_children [where st = "[replicate 48 1 @ replicate 48 2]"
      and n = "\<lparr>block_cid = Cid [], block_data = \<lparr>s_array = 0, s_off = 0, s_len = 96, s_cap = 96\<rparr>\<rparr>"
      and left = "replicate 48 1" and right = "replicate 48 2" and rest = "[''1'']"
      and p = "''2''"]
  by (simp add: slice_ok_def slice_bytes_def RawData_def nmtHashSize_48 Link_of_def)

text \<open>
  C5. For a leaf node, \<^verbatim>\<open>Resolve\<close> fails with the leaf's error for an invalid path on
  every path, the non-empty ones among them, and \<^verbatim>\<open>Links\<close> returns no link.
\<close>

theorem leaf_Resolve_Links:
  "Node_Resolve st (NmtLeafNode l) path = Inl (Err ErrInvalidPathLeaf) \<and>
   Node_Links st (NmtLeafNode l) = Inr []"
  by (simp add: nmtLeafNode_Resolve_def nmtLeafNode_Links_def)

text \<open>
  C10. On an empty path, \<^verbatim>\<open>Resolve\<close> of an inner node panics with an index out of range,
  since it reads the first segment before anything else, and so does not return its error
  for an invalid path; \<^verbatim>\<open>Resolve\<close> of a leaf node returns its error on the empty path too.
\<close>

theorem Resolve_empty_path:
  "Node_Resolve st (NmtNode n) [] = Inl (Panic IndexOutOfRange) \<and>
   Node_Resolve st (NmtNode n) [] \<noteq> Inl (Err ErrInvalidPathInner) \<and>
   Node_Resolve st (NmtLeafNode l) [] = Inl (Err ErrInvalidPathLeaf)"
  by (simp add: nmtNode_Resolve_def nmtLeafNode_Resolve_def)

subsection \<open>Enumerating child paths\<close>

text \<open>
  C9. \<^verbatim>\<open>Tree\<close> of an inner node returns \<open>[''0'', ''1'']\<close> for the empty path and depth
  \<open>-1\<close>; for any other path or depth it panics with the message that the proper tree is
  not yet implemented, which is no error value. \<^verbatim>\<open>Tree\<close> of a leaf node returns the empty
  sequence for every path and depth.
\<close>

theorem Node_Tree_queries:
  "Node_Tree (NmtNode n) [] (- 1) = Inr [''0'', ''1''] \<and>
   (path \<noteq> [] \<or> depth \<noteq> - 1 \<longrightarrow> Node_Tree (NmtNode n) path depth = Inl TreeNotImplemented) \<and>
   Node_Tree (NmtLeafNode l) path depth = Inr []"
  by (simp add: nmtNode_Tree_def nmtLeafNode_Tree_def)

text \<open>The path 0 and the depth 1, each alone and together.\<close>

theorem Node_Tree_queries_witness:
  "Node_Tree (NmtNode 
     \<lparr>block_cid = Cid [], block_data = \<lparr>s_array = 0, s_off = 0, s_len = 96, s_cap = 96\<rparr>\<rparr>) [] (- 1) = Inr [''0'', ''1''] \<and>
   Node_Tree (NmtNode 
     \<lparr>block_cid = Cid [], block_data = \<lparr>s_array = 0, s_off = 0, s_len = 96, s_cap = 96\<rparr>\<rparr>) ''0'' (- 1) = Inl TreeNotImplemented \<and>
   Node_Tree (NmtNode 
     \<lparr>block_cid = Cid [], block_data = \<lparr>s_array = 0, s_off = 0, s_len = 96, s_cap = 96\<rparr>\<rparr>) [] 1 = Inl TreeNotImplemented \<and>
   Node_Tree (NmtLeafNode 
     \<lparr>block_cid = Cid [], block_data = \<lparr>s_array = 0, s_off = 0, s_len = 96, s_cap = 96\<rparr>\<rparr>) ''0'' 1 = Inr []"
  using
    Node_Tree_queries [of "
     \<lparr>block_cid = Cid [], block_data = \<lparr>s_array = 0, s_off = 0, s_len = 96, s_cap = 96\<rparr>\<rparr>" "''0''" "- 1" "
     \<lparr>block_cid = Cid [], block_data = \<lparr>s_array = 0, s_off = 0, s_len = 96, s_cap = 96\<rparr>\<rparr>"]
    Node_Tree_queries [of "
     \<lparr>block_cid = Cid [], block_data = \<lparr>s_array = 0, s_off = 0, s_len = 96, s_cap = 96\<rparr>\<rparr>" "[]" 1 "
     \<lparr>block_cid = Cid [], block_data = \<lparr>s_array = 0, s_off = 0, s_len = 96, s_cap = 96\<rparr>\<rparr>"]
    Node_Tree_queries [of "
     \<lparr>block_cid = Cid [], block_data = \<lparr>s_array = 0, s_off = 0, s_len = 96, s_cap = 96\<rparr>\<rparr>" "''0''" 1 "
     \<lparr>block_cid = Cid [], block_data = \<lparr>s_array = 0, s_off = 0, s_len = 96, s_cap = 96\<rparr>\<rparr>"]
  by simp

subsection \<open>Fetching a node\<close>

lemma errors_As_ErrNotFound_wrapped_ptr:
  "errors_As_ErrNotFound (foldr ErrWrapped msgs (ErrNotFoundPtr c)) = Some (ErrNotFoundPtr c)"
  by (induction msgs) simp_all

lemma errors_As_ErrNotFound_wrapped_other:
  assumes "\<forall>c. leaf \<noteq> ErrNotFoundPtr c" and "\<forall>msg e. leaf \<noteq> ErrWrapped msg e"
  shows "errors_As_ErrNotFound (foldr ErrWrapped msgs leaf) = None"
proof (induction msgs)
  case Nil
  show ?case using assms by (cases leaf) simp_all
next
  case (Cons m ms)
  then show ?case by simp
qed

lemma errors_As_ErrNotFound_Some:
  "errors_As_ErrNotFound e = Some x \<Longrightarrow> (\<exists>c. x = ErrNotFoundPtr c) \<and> IsNotFound e"
  by (induction e rule: errors_As_ErrNotFound.induct) auto

lemma decodeBlock_error:
  "decodeBlock ShareSize b = Inl e \<Longrightarrow> e = ErrWrongSizedData"
  by (auto simp add: decodeBlock_def Let_def split: if_splits)

text \<open>
  Every error is a leaf that wraps nothing, under a list of wrappers, the empty list
  included.
\<close>

lemma error_chain_shape:
  "\<exists>msgs leaf. e = foldr ErrWrapped msgs leaf \<and> (\<forall>msg e'. leaf \<noteq> ErrWrapped msg e')"
proof (induction e)
  case (ErrWrapped m e)
  then obtain msgs leaf where "e = foldr ErrWrapped msgs leaf"
    and "\<forall>msg e'. leaf \<noteq> ErrWrapped msg e'" by blast
  then have "ErrWrapped m e = foldr ErrWrapped (m # msgs) leaf \<and>
      (\<forall>msg e'. leaf \<noteq> ErrWrapped msg e')" by simp
  then show ?case by blast
qed (rule exI [of _ "[]"], simp)+

text \<open>
  C8. \<^verbatim>\<open>GetNode\<close> asks the block getter for the identifier. When the getter returns a
  block, the result is that of \<^verbatim>\<open>decodeBlock\<close> on it, whose only error is the one for
  wrong sized data, no not-found error. When the getter fails, \<^verbatim>\<open>GetNode\<close> fails, and its
  error is a not-found error, as \<^verbatim>\<open>ipld.IsNotFound\<close> tests it, exactly when the getter's
  error is one: a pointer \<^verbatim>\<open>*ipld.ErrNotFound\<close> under any wrappers comes back alone,
  without the wrappers, and every other error comes back as the getter gave it, whether
  it is the value \<^verbatim>\<open>ipld.ErrNotFound\<close>, wrapped or not, or an error of another kind.
\<close>

theorem GetNode_delegates:
  "(\<forall>block. bGetter root = Inr block \<longrightarrow>
      GetNode ShareSize bGetter root = decodeBlock ShareSize block \<and>
      (\<forall>e. GetNode ShareSize bGetter root = Inl e \<longrightarrow> e = ErrWrongSizedData \<and> \<not> IsNotFound e)) \<and>
   (\<forall>msgs c. bGetter root = Inl (foldr ErrWrapped msgs (ErrNotFoundPtr c)) \<longrightarrow>
      GetNode ShareSize bGetter root = Inl (ErrNotFoundPtr c)) \<and>
   (\<forall>msgs leaf. bGetter root = Inl (foldr ErrWrapped msgs leaf) \<and>
        (\<forall>c. leaf \<noteq> ErrNotFoundPtr c) \<and> (\<forall>msg e. leaf \<noteq> ErrWrapped msg e) \<longrightarrow>
      GetNode ShareSize bGetter root = Inl (foldr ErrWrapped msgs leaf)) \<and>
   (\<forall>err. bGetter root = Inl err \<longrightarrow>
      (\<exists>e. GetNode ShareSize bGetter root = Inl e \<and> IsNotFound e = IsNotFound err)) \<and>
   ((\<exists>e. GetNode ShareSize bGetter root = Inl e \<and> IsNotFound e) \<longleftrightarrow>
      (\<exists>err. bGetter root = Inl err \<and> IsNotFound err))"
proof -
  have ok: "GetNode ShareSize bGetter root = decodeBlock ShareSize block \<and>
      (\<forall>e. GetNode ShareSize bGetter root = Inl e \<longrightarrow> e = ErrWrongSizedData \<and> \<not> IsNotFound e)"
    if "bGetter root = Inr block" for block
  proof -
    have eq: "GetNode ShareSize bGetter root = decodeBlock ShareSize block"
      using that by (simp add: GetNode_def)
    show ?thesis
      using decodeBlock_error [of ShareSize block] by (auto simp add: eq)
  qed
  have ptr: "GetNode ShareSize bGetter root = Inl (ErrNotFoundPtr c)"
    if "bGetter root = Inl (foldr ErrWrapped msgs (ErrNotFoundPtr c))" for msgs c
    using that by (simp add: GetNode_def errors_As_ErrNotFound_wrapped_ptr)
  have other: "GetNode ShareSize bGetter root = Inl (foldr ErrWrapped msgs leaf)"
    if "bGetter root = Inl (foldr ErrWrapped msgs leaf) \<and>
        (\<forall>c. leaf \<noteq> ErrNotFoundPtr c) \<and> (\<forall>msg e. leaf \<noteq> ErrWrapped msg e)" for msgs leaf
    using that by (simp add: GetNode_def errors_As_ErrNotFound_wrapped_other)
  have keep: "\<exists>e. GetNode ShareSize bGetter root = Inl e \<and> IsNotFound e = IsNotFound err"
    if "bGetter root = Inl err" for err
  proof (cases "errors_As_ErrNotFound err")
    case None
    with that show ?thesis by (simp add: GetNode_def)
  next
    case (Some x)
    with that show ?thesis
      using errors_As_ErrNotFound_Some [OF Some] by (auto simp add: GetNode_def)
  qed
  have iff: "(\<exists>e. GetNode ShareSize bGetter root = Inl e \<and> IsNotFound e) \<longleftrightarrow>
      (\<exists>err. bGetter root = Inl err \<and> IsNotFound err)"
  proof (cases "bGetter root")
    case (Inl err)
    then show ?thesis using keep [OF Inl] by auto
  next
    case (Inr block)
    then show ?thesis using ok [OF Inr] by auto
  qed
  show ?thesis
    using ok ptr other keep iff by blast
qed

text \<open>
  Getters that fail with a wrapped pointer to a not-found error, with the not-found value
  wrapped and bare, and with a timeout; and getters that return 96 bytes and 50 bytes.
\<close>

theorem GetNode_delegates_witness:
  "GetNode 512 (\<lambda>c. Inl (ErrWrapped ''blockservice'' (ErrNotFoundPtr c))) (Cid [1]) =
     Inl (ErrNotFoundPtr (Cid [1])) \<and>
   GetNode 512 (\<lambda>c. Inl (ErrWrapped ''blockservice'' (ErrNotFound c))) (Cid [1]) =
     Inl (ErrWrapped ''blockservice'' (ErrNotFound (Cid [1]))) \<and>
   GetNode 512 (\<lambda>c. Inl (ErrNotFound c)) (Cid [1]) = Inl (ErrNotFound (Cid [1])) \<and>
   GetNode 512 (\<lambda>c. Inl (ErrOther ''context deadline exceeded'')) (Cid [1]) =
     Inl (ErrOther ''context deadline exceeded'') \<and>
   GetNode 512
     (\<lambda>c. Inr \<lparr>block_cid = c, block_data = \<lparr>s_array = 0, s_off = 0, s_len = 96, s_cap = 96\<rparr>\<rparr>)
     (Cid [1]) =
     Inr (NmtNode \<lparr>block_cid = Cid [1],
       block_data = \<lparr>s_array = 0, s_off = 0, s_len = 96, s_cap = 96\<rparr>\<rparr>) \<and>
   GetNode 512
     (\<lambda>c. Inr \<lparr>block_cid = c, block_data = \<lparr>s_array = 0, s_off = 0, s_len = 50, s_cap = 50\<rparr>\<rparr>)
     (Cid [1]) = Inl ErrWrongSizedData"
proof -
  let ?inner = "\<lambda>c. Inr \<lparr>block_cid = c,
    block_data = \<lparr>s_array = 0, s_off = 0, s_len = 96, s_cap = 96\<rparr>\<rparr> :: error + Block"
  let ?short = "\<lambda>c. Inr \<lparr>block_cid = c,
    block_data = \<lparr>s_array = 0, s_off = 0, s_len = 50, s_cap = 50\<rparr>\<rparr> :: error + Block"
  have 1: "GetNode 512 (\<lambda>c. Inl (ErrWrapped ''blockservice'' (ErrNotFoundPtr c))) (Cid [1]) =
      Inl (ErrNotFoundPtr (Cid [1]))"
    using GetNode_delegates [of "\<lambda>c. Inl (ErrWrapped ''blockservice'' (ErrNotFoundPtr c))"
        "Cid [1]" 512, THEN conjunct2, THEN conjunct1, rule_format,
        of "[''blockservice'']" "Cid [1]"]
    by simp
  have 2: "GetNode 512 (\<lambda>c. Inl (ErrWrapped ''blockservice'' (ErrNotFound c))) (Cid [1]) =
      Inl (ErrWrapped ''blockservice'' (ErrNotFound (Cid [1])))"
    using GetNode_delegates [of "\<lambda>c. Inl (ErrWrapped ''blockservice'' (ErrNotFound c))"
        "Cid [1]" 512, THEN conjunct2, THEN conjunct2, THEN conjunct1, rule_format,
        of "[''blockservice'']" "ErrNotFound (Cid [1])"]
    by simp
  have 3: "GetNode 512 (\<lambda>c. Inl (ErrNotFound c)) (Cid [1]) = Inl (ErrNotFound (Cid [1]))"
    using GetNode_delegates [of "\<lambda>c. Inl (ErrNotFound c)"
        "Cid [1]" 512, THEN conjunct2, THEN conjunct2, THEN conjunct1, rule_format,
        of "[]" "ErrNotFound (Cid [1])"]
    by simp
  have 4: "GetNode 512 (\<lambda>c. Inl (ErrOther ''context deadline exceeded'')) (Cid [1]) =
      Inl (ErrOther ''context deadline exceeded'')"
    using GetNode_delegates [of "\<lambda>c. Inl (ErrOther ''context deadline exceeded'')"
        "Cid [1]" 512, THEN conjunct2, THEN conjunct2, THEN conjunct1, rule_format,
        of "[]" "ErrOther ''context deadline exceeded''"]
    by simp
  have 5: "GetNode 512 ?inner (Cid [1]) = Inr (NmtNode \<lparr>block_cid = Cid [1],
       block_data = \<lparr>s_array = 0, s_off = 0, s_len = 96, s_cap = 96\<rparr>\<rparr>)"
    using GetNode_delegates [of ?inner "Cid [1]" 512, THEN conjunct1]
    by (simp add: decodeBlock_def nmtHashSize_48 NamespaceSize_def RawData_def)
  have 6: "GetNode 512 ?short (Cid [1]) = Inl ErrWrongSizedData"
    using GetNode_delegates [of ?short "Cid [1]" 512, THEN conjunct1]
    by (simp add: decodeBlock_def nmtHashSize_48 NamespaceSize_def RawData_def)
  show ?thesis
    using 1 2 3 4 5 6 by simp
qed

subsection \<open>Translating sampling coordinates\<close>

text \<open>
  C6. For a header and indices \<open>row\<close> and \<open>col\<close> within its row and column roots (the roots
  at these indices being namespaced hashes of \<open>nmtHashSize\<close> bytes), \<^verbatim>\<open>Translate\<close> returns
  one of two results and no other: the identifier of the column root at \<open>col\<close> with \<open>row\<close>
  when the random choice is 0, the identifier of the row root at \<open>row\<close> with \<open>col\<close>
  otherwise. The choice is the value of \<^verbatim>\<open>rand.Intn(2)\<close>, an argument of the model.
\<close>

theorem Translate_two_results:
  assumes row: "0 \<le> row" "row < int (length (RowsRoots dah))"
    and col: "0 \<le> col" "col < int (length (ColumnRoots dah))"
    and rowlen: "length (RowsRoots dah ! nat row) = nmtHashSize"
    and collen: "length (ColumnRoots dah ! nat col) = nmtHashSize"
  shows "\<exists>cc cr.
    CidFromNamespacedSha256 (ColumnRoots dah ! nat col) = Inr cc \<and>
    CidFromNamespacedSha256 (RowsRoots dah ! nat row) = Inr cr \<and>
    Translate coin dah row col = (if coin = 0 then Inr (cc, row) else Inr (cr, col)) \<and>
    Translate coin dah row col \<in> {Inr (cc, row), Inr (cr, col)}"
  using row col
  by (simp add: Translate_def index_def MustCidFromNamespacedSha256_def
      CidFromNamespacedSha256_bytes [OF rowlen] CidFromNamespacedSha256_bytes [OF collen])

text \<open>A header of two rows and two columns, the cell (0, 1), and both values of the choice.\<close>

theorem Translate_two_results_witness:
  "\<exists>cc cr.
     CidFromNamespacedSha256 (replicate 48 4) = Inr cc \<and>
     CidFromNamespacedSha256 (replicate 48 1) = Inr cr \<and>
     Translate 0
       \<lparr>RowsRoots = [replicate 48 1, replicate 48 2],
        ColumnRoots = [replicate 48 3, replicate 48 4]\<rparr> 0 1 = Inr (cc, 0) \<and>
     Translate 1
       \<lparr>RowsRoots = [replicate 48 1, replicate 48 2],
        ColumnRoots = [replicate 48 3, replicate 48 4]\<rparr> 0 1 = Inr (cr, 1)"
  using
    Translate_two_results [where row = 0 and col = 1 and coin = 0 and
      dah = "\<lparr>RowsRoots = [replicate 48 1, replicate 48 2],
        ColumnRoots = [replicate 48 3, replicate 48 4]\<rparr>"]
    Translate_two_results [where row = 0 and col = 1 and coin = 1 and
      dah = "\<lparr>RowsRoots = [replicate 48 1, replicate 48 2],
        ColumnRoots = [replicate 48 3, replicate 48 4]\<rparr>"]
  by (auto simp add: nmtHashSize_48)

subsection \<open>Copying a node\<close>

lemma slice_bytes_append:
  assumes "s_array s < length st"
  shows "slice_bytes (st @ xs) s = slice_bytes st s"
  using assms by (simp add: slice_bytes_def nth_append)

lemma copy_into_made:
  assumes ok: "slice_ok st s"
  shows "copy_bytes (fst (make_bytes st (s_len s))) (snd (make_bytes st (s_len s))) s =
    (st @ [slice_bytes st s], s_len s)"
proof -
  have a: "s_array s < length st"
    using ok by (simp add: slice_ok_def)
  have len: "length (slice_bytes st s) = s_len s"
    by (rule slice_bytes_length [OF ok])
  have "slice_bytes (st @ [replicate (s_len s) 0]) s = slice_bytes st s"
    by (rule slice_bytes_append [OF a])
  then show ?thesis
    using len by (simp add: copy_bytes_def make_bytes_def Let_def)
qed

text \<open>With the debug flag off the block constructor accepts every slice and identifier.\<close>

lemma NewBlockWithCid_no_debug:
  "NewBlockWithCid None st s c = Inr \<lparr>block_cid = c, block_data = s\<rparr>"
  by (simp add: NewBlockWithCid_def)

lemma NewBlockWithCid_same_bytes:
  assumes "NewBlockWithCid dbg st s c = Inr b"
    and "slice_bytes st' s' = slice_bytes st s"
  shows "NewBlockWithCid dbg st' s' c = Inr \<lparr>block_cid = c, block_data = s'\<rparr>"
  using assms
  by (auto simp add: NewBlockWithCid_def split: option.splits sum.splits if_splits)

lemma nmtNode_Copy_result:
  assumes ok: "slice_ok st (RawData n)"
    and acc: "NewBlockWithCid dbg st (RawData n) (Block_Cid n) = Inr b"
  shows "nmtNode_Copy dbg st n =
    Inr (NmtNode \<lparr>block_cid = Block_Cid n,
           block_data = \<lparr>s_array = length st, s_off = 0, s_len = s_len (RawData n),
             s_cap = s_len (RawData n)\<rparr>\<rparr>,
         st @ [slice_bytes st (RawData n)])"
proof -
  let ?d = "\<lparr>s_array = length st, s_off = 0, s_len = s_len (RawData n),
             s_cap = s_len (RawData n)\<rparr>"
  let ?st2 = "st @ [slice_bytes st (RawData n)]"
  have mk: "make_bytes st (s_len (RawData n)) = (st @ [replicate (s_len (RawData n)) 0], ?d)"
    by (simp add: make_bytes_def)
  have cp: "copy_bytes (st @ [replicate (s_len (RawData n)) 0]) ?d (RawData n) =
      (?st2, s_len (RawData n))"
    using copy_into_made [OF ok] by (simp add: mk)
  have "slice_bytes ?st2 ?d = slice_bytes st (RawData n)"
    using slice_bytes_length [OF ok] by (simp add: slice_bytes_def)
  then have "NewBlockWithCid dbg ?st2 ?d (Block_Cid n) =
      Inr \<lparr>block_cid = Block_Cid n, block_data = ?d\<rparr>"
    by (rule NewBlockWithCid_same_bytes [OF acc])
  then show ?thesis
    by (simp add: nmtNode_Copy_def mk cp newNMTNode_def)
qed

text \<open>
  C7. For a node of either variant whose data is a valid slice, and which the block
  constructor accepts (as it does every node when the library's debug flag is off),
  \<^verbatim>\<open>Copy\<close> returns a node with the same bytes and the same identifier on a slice of a
  different backing array, and leaves the bytes of the original as they were. A write
  through the slice of the copy changes the bytes of the copy and not those of the
  original.
\<close>

theorem Node_Copy_independent:
  assumes ok: "slice_ok st (Node_RawData nd)"
    and acc: "NewBlockWithCid dbg st (Node_RawData nd) (Node_Cid nd) = Inr b"
  shows "\<exists>nd' st'.
    Node_Copy dbg st nd = Inr (nd', st') \<and>
    slice_ok st' (Node_RawData nd') \<and>
    slice_bytes st' (Node_RawData nd') = slice_bytes st (Node_RawData nd) \<and>
    Node_Cid nd' = Node_Cid nd \<and>
    s_array (Node_RawData nd') \<noteq> s_array (Node_RawData nd) \<and>
    slice_bytes st' (Node_RawData nd) = slice_bytes st (Node_RawData nd) \<and>
    (\<forall>i v st''. slice_set st' (Node_RawData nd') i v = Inr st'' \<longrightarrow>
       slice_bytes st'' (Node_RawData nd) = slice_bytes st (Node_RawData nd) \<and>
       slice_bytes st'' (Node_RawData nd') = (slice_bytes st (Node_RawData nd))[i := v])"
proof -
  let ?n = "Node_block nd"
  let ?s = "RawData ?n"
  let ?d = "\<lparr>s_array = length st, s_off = 0, s_len = s_len ?s, s_cap = s_len ?s\<rparr>"
  let ?nd' = "NmtNode \<lparr>block_cid = Block_Cid ?n, block_data = ?d\<rparr>"
  let ?st' = "st @ [slice_bytes st ?s]"
  have ok': "slice_ok st ?s"
    using ok by (simp add: Node_RawData_def)
  have acc': "NewBlockWithCid dbg st ?s (Block_Cid ?n) = Inr b"
    using acc by (simp add: Node_RawData_def Node_Cid_def)
  have a: "s_array ?s < length st"
    using ok' by (simp add: slice_ok_def)
  have len: "length (slice_bytes st ?s) = s_len ?s"
    by (rule slice_bytes_length [OF ok'])
  have copy: "Node_Copy dbg st nd = Inr (?nd', ?st')"
    using nmtNode_Copy_result [OF ok' acc'] by (cases nd) simp_all
  have raw: "Node_RawData ?nd' = ?d"
    by (simp add: Node_RawData_def RawData_def)
  have 1: "slice_ok ?st' ?d"
    using len by (simp add: slice_ok_def)
  have 2: "slice_bytes ?st' ?d = slice_bytes st ?s"
    using len by (simp add: slice_bytes_def)
  have 3: "Node_Cid ?nd' = Node_Cid nd"
    by (simp add: Node_Cid_def Block_Cid_def)
  have 4: "s_array ?d \<noteq> s_array ?s"
    using a by simp
  have 5: "slice_bytes ?st' ?s = slice_bytes st ?s"
    by (rule slice_bytes_append [OF a])
  have 6: "slice_bytes st'' ?s = slice_bytes st ?s \<and>
      slice_bytes st'' ?d = (slice_bytes st ?s)[i := v]"
    if "slice_set ?st' ?d i v = Inr st''" for i v st''
  proof -
    have st'': "st'' = st @ [(slice_bytes st ?s)[i := v]]"
      using that by (simp add: slice_set_def split: if_splits)
    show ?thesis
      using a len by (simp add: st'' slice_bytes_def nth_append)
  qed
  have 7: "Node_RawData nd = ?s"
    by (simp add: Node_RawData_def)
  show ?thesis
  proof (intro exI conjI allI impI)
    show "Node_Copy dbg st nd = Inr (?nd', ?st')"
      by (rule copy)
    show "slice_ok ?st' (Node_RawData ?nd')"
      using 1 by (simp only: raw)
    show "slice_bytes ?st' (Node_RawData ?nd') = slice_bytes st (Node_RawData nd)"
      using 2 by (simp only: raw 7)
    show "Node_Cid ?nd' = Node_Cid nd"
      by (rule 3)
    show "s_array (Node_RawData ?nd') \<noteq> s_array (Node_RawData nd)"
      using 4 by (simp add: raw 7)
    show "slice_bytes ?st' (Node_RawData nd) = slice_bytes st (Node_RawData nd)"
      using 5 by (simp only: 7)
  next
    fix i v st''
    assume "slice_set ?st' (Node_RawData ?nd') i v = Inr st''"
    then have set: "slice_set ?st' ?d i v = Inr st''"
      by (simp only: raw)
    show "slice_bytes st'' (Node_RawData nd) = slice_bytes st (Node_RawData nd)"
      using 6 [OF set] by (simp only: 7)
    show "slice_bytes st'' (Node_RawData ?nd') = (slice_bytes st (Node_RawData nd))[i := v]"
      using 6 [OF set] by (simp only: raw 7)
  qed
qed

text \<open>
  A leaf of three bytes is copied to the next free array; writing 9 into the copy leaves
  the original at 1, 2, 3.
\<close>

theorem Node_Copy_independent_witness:
  "Node_Copy None [[1, 2, 3]]
     (NmtLeafNode \<lparr>block_cid = Cid [7],
        block_data = \<lparr>s_array = 0, s_off = 0, s_len = 3, s_cap = 3\<rparr>\<rparr>) =
     Inr (NmtNode \<lparr>block_cid = Cid [7],
            block_data = \<lparr>s_array = 1, s_off = 0, s_len = 3, s_cap = 3\<rparr>\<rparr>,
          [[1, 2, 3], [1, 2, 3]]) \<and>
   slice_set [[1, 2, 3], [1, 2, 3]] \<lparr>s_array = 1, s_off = 0, s_len = 3, s_cap = 3\<rparr> 0 9 =
     Inr [[1, 2, 3], [9, 2, 3]] \<and>
   slice_bytes [[1, 2, 3], [9, 2, 3]] \<lparr>s_array = 0, s_off = 0, s_len = 3, s_cap = 3\<rparr> =
     [1, 2, 3]"
  using Node_Copy_independent [where dbg = None and st = "[[1, 2, 3]]"
      and nd = "NmtLeafNode \<lparr>block_cid = Cid [7],
        block_data = \<lparr>s_array = 0, s_off = 0, s_len = 3, s_cap = 3\<rparr>\<rparr>"
      and b = "\<lparr>block_cid = Cid [7],
        block_data = \<lparr>s_array = 0, s_off = 0, s_len = 3, s_cap = 3\<rparr>\<rparr>"]
  by (simp add: slice_ok_def slice_bytes_def slice_set_def Node_RawData_def Node_Cid_def
      RawData_def Block_Cid_def NewBlockWithCid_def nmtNode_Copy_def make_bytes_def
      copy_bytes_def newNMTNode_def)

end
